theory Spec2Isabelle
  imports Complex_Main "HOL-Library.List_Lexorder" "HOL-Library.Char_ord"
begin

section \<open>Python values of the calibration document\<close>

text \<open>
  \<^verbatim>\<open>yaml.safe_load\<close> returns a tree of Python objects: \<^verbatim>\<open>None\<close>, booleans, unbounded
  integers, floats, strings, lists and dicts. Floats are modelled by the real number they
  denote, so float arithmetic is exact in this development; \<open>YNonFinite\<close> stands for the
  floats that denote no real number (\<^verbatim>\<open>.inf\<close>, \<^verbatim>\<open>-.inf\<close>, \<^verbatim>\<open>.nan\<close>). A dict is the
  association list of its items; its keys are strings, which is the input type of the
  model (the source subscripts dicts with string literals only).
\<close>

datatype yaml =
    YNone
  | YBool bool
  | YInt int
  | YFloat real
  | YNonFinite
  | YStr string
  | YList "yaml list"
  | YDict "(string \<times> yaml) list"

datatype exn =
    KeyError | IndexError | TypeError | ValueError | ZeroDivisionError
  | CvError | OSError | YAMLError

text \<open>Sequencing of operations that may raise: the first exception wins.\<close>

definition and_then :: "exn + 'a \<Rightarrow> ('a \<Rightarrow> exn + 'b) \<Rightarrow> exn + 'b" where
  "and_then r f = (case r of Inl e \<Rightarrow> Inl e | Inr v \<Rightarrow> f v)"

text \<open>Python sequence indexing \<^verbatim>\<open>xs[i]\<close>: a negative index counts from the end.\<close>

definition py_index :: "'a list \<Rightarrow> int \<Rightarrow> exn + 'a" where
  "py_index xs i =
     (let n = int (length xs); j = (if i < 0 then i + n else i)
      in if 0 \<le> j \<and> j < n then Inr (xs ! nat j) else Inl IndexError)"

text \<open>\<^verbatim>\<open>obj["key"]\<close>: only a dict accepts a string subscript.\<close>

definition getitem_str :: "yaml \<Rightarrow> string \<Rightarrow> exn + yaml" where
  "getitem_str obj k =
     (case obj of
        YDict kvs \<Rightarrow> (case map_of kvs k of None \<Rightarrow> Inl KeyError | Some v \<Rightarrow> Inr v)
      | _ \<Rightarrow> Inl TypeError)"

text \<open>
  \<^verbatim>\<open>obj[i]\<close> with an integer: a list gives its element, a string its one-character
  substring, a dict (string keys) has no such key, anything else is not subscriptable.
\<close>

definition getitem_int :: "yaml \<Rightarrow> int \<Rightarrow> exn + yaml" where
  "getitem_int obj i =
     (case obj of
        YList xs \<Rightarrow> py_index xs i
      | YStr s \<Rightarrow> and_then (py_index s i) (\<lambda>c. Inr (YStr [c]))
      | YDict kvs \<Rightarrow> Inl KeyError
      | _ \<Rightarrow> Inl TypeError)"

section \<open>The part of numpy that the source uses\<close>

text \<open>
  An array has an element type, a shape and its elements in row-major order. The cells
  of an \<open>Int64\<close> array are \<open>YInt\<close>, those of a \<open>Float64\<close> array are \<open>YFloat\<close> or
  \<open>YNonFinite\<close>, those of an \<open>Object\<close> array are the Python objects themselves; the cells
  of a \<open>Unicode\<close> array stand for the text of the values they were built from.
  \<open>Int64\<close> is numpy's default integer type, the one it gives to Python integers.
\<close>

datatype dtype = Bool8 | Int64 | UInt64 | Float64 | Unicode | Object

record ndarray =
  dtype :: dtype
  shape :: "nat list"
  cells :: "yaml list"

definition in_int64 :: "int \<Rightarrow> bool" where
  "in_int64 n = (- (2 ^ 63) \<le> n \<and> n < 2 ^ 63)"

definition in_uint64_only :: "int \<Rightarrow> bool" where
  "in_uint64_only n = (2 ^ 63 \<le> n \<and> n < 2 ^ 64)"

text \<open>
  Shape discovery of \<^verbatim>\<open>np.array\<close> / \<^verbatim>\<open>np.asarray\<close> on nested lists: every non-list
  object is a scalar; the elements of a list must all have one shape. A ragged nesting has
  no shape (numpy from 1.24 on raises \<^verbatim>\<open>ValueError\<close>).
\<close>

fun np_shape :: "yaml \<Rightarrow> nat list option" where
  "np_shape (YList xs) =
     (case xs of
        [] \<Rightarrow> Some [0]
      | x # _ \<Rightarrow>
          (case np_shape x of
             None \<Rightarrow> None
           | Some s \<Rightarrow>
               if list_all (\<lambda>y. np_shape y = Some s) xs then Some (length xs # s) else None))"
| "np_shape _ = Some []"

fun np_flat :: "yaml \<Rightarrow> yaml list" where
  "np_flat (YList xs) = concat (map np_flat xs)"
| "np_flat v = [v]"

text \<open>
  The element type numpy finds for a list of scalars: \<^verbatim>\<open>None\<close>, dicts and integers
  beyond 64 bits force \<open>Object\<close>; otherwise a string forces \<open>Unicode\<close>; otherwise
  the numeric types are promoted (bool below int64 and uint64, int64 with uint64 gives
  float64). The empty array is \<open>Float64\<close>.
\<close>

fun is_object :: "yaml \<Rightarrow> bool" where
  "is_object YNone = True"
| "is_object (YDict _) = True"
| "is_object (YList _) = True"
| "is_object (YInt n) = (\<not> in_int64 n \<and> \<not> in_uint64_only n)"
| "is_object _ = False"

fun is_str :: "yaml \<Rightarrow> bool" where
  "is_str (YStr _) = True"
| "is_str _ = False"

fun is_float :: "yaml \<Rightarrow> bool" where
  "is_float (YFloat _) = True"
| "is_float YNonFinite = True"
| "is_float _ = False"

fun is_i64 :: "yaml \<Rightarrow> bool" where
  "is_i64 (YInt n) = in_int64 n"
| "is_i64 _ = False"

fun is_u64 :: "yaml \<Rightarrow> bool" where
  "is_u64 (YInt n) = in_uint64_only n"
| "is_u64 _ = False"

definition np_result_type :: "yaml list \<Rightarrow> dtype" where
  "np_result_type vs =
     (if vs = [] then Float64
      else if list_ex is_object vs then Object
      else if list_ex is_str vs then Unicode
      else if list_ex is_float vs \<or> (list_ex is_i64 vs \<and> list_ex is_u64 vs) then Float64
      else if list_ex is_u64 vs then UInt64
      else if list_ex is_i64 vs then Int64
      else Bool8)"

text \<open>Conversion of a Python scalar to a cell of the element type.\<close>

fun np_cast :: "dtype \<Rightarrow> yaml \<Rightarrow> yaml" where
  "np_cast Int64 (YBool b) = YInt (if b then 1 else 0)"
| "np_cast UInt64 (YBool b) = YInt (if b then 1 else 0)"
| "np_cast Float64 (YBool b) = YFloat (if b then 1 else 0)"
| "np_cast Float64 (YInt n) = YFloat (of_int n)"
| "np_cast _ v = v"

definition np_array :: "yaml \<Rightarrow> exn + ndarray" where
  "np_array obj =
     (case np_shape obj of
        None \<Rightarrow> Inl ValueError
      | Some s \<Rightarrow>
          (let vs = np_flat obj; t = np_result_type vs
           in Inr \<lparr>dtype = t, shape = s, cells = map (np_cast t) vs\<rparr>))"

text \<open>\<^verbatim>\<open>a[:, np.newaxis]\<close>: needs at least one axis, and inserts an axis of length 1 after it.\<close>

definition newaxis1 :: "ndarray \<Rightarrow> exn + ndarray" where
  "newaxis1 a =
     (case shape a of
        [] \<Rightarrow> Inl IndexError
      | n # s \<Rightarrow> Inr (a\<lparr>shape := n # 1 # s\<rparr>))"

text \<open>
  The quotient \<^verbatim>\<open>x / float(output_scale)\<close> for an \<open>x\<close> read from an array of element type
  \<open>t\<close>. On a numpy number a zero divisor gives a non-finite float (with a warning, no
  exception); in an \<open>Object\<close> array \<open>x\<close> is the Python object and Python's division
  raises; a string has no division.
\<close>

fun num_of :: "yaml \<Rightarrow> real option" where
  "num_of (YBool b) = Some (if b then 1 else 0)"
| "num_of (YInt n) = Some (of_int n)"
| "num_of (YFloat r) = Some r"
| "num_of _ = None"

definition true_divide :: "dtype \<Rightarrow> yaml \<Rightarrow> real \<Rightarrow> exn + yaml" where
  "true_divide t x d =
     (if t = Unicode then Inl TypeError
      else if t = Object then
        (if x = YNonFinite then (if d = 0 then Inl ZeroDivisionError else Inr YNonFinite)
         else case num_of x of
                None \<Rightarrow> Inl TypeError
              | Some r \<Rightarrow> if d = 0 then Inl ZeroDivisionError else Inr (YFloat (r / d)))
      else
        (case num_of x of
           None \<Rightarrow> Inr YNonFinite
         | Some r \<Rightarrow> if d = 0 then Inr YNonFinite else Inr (YFloat (r / d))))"

text \<open>
  Storing a float into a cell converts it to the element type of the array: an integer
  array keeps the integer part (rounding toward zero), and a value outside the 64-bit
  range becomes the least int64.
\<close>

definition trunc :: "real \<Rightarrow> int" where
  "trunc r = (if 0 \<le> r then \<lfloor>r\<rfloor> else \<lceil>r\<rceil>)"

definition cast_int64 :: "yaml \<Rightarrow> int" where
  "cast_int64 v =
     (case v of
        YFloat r \<Rightarrow> if in_int64 (trunc r) then trunc r else - (2 ^ 63)
      | _ \<Rightarrow> - (2 ^ 63))"

definition cast_uint64 :: "yaml \<Rightarrow> int" where
  "cast_uint64 v =
     (case v of
        YFloat r \<Rightarrow> if 0 \<le> trunc r \<and> trunc r < 2 ^ 64 then trunc r else 2 ^ 63
      | _ \<Rightarrow> 2 ^ 63)"

definition np_store :: "dtype \<Rightarrow> yaml \<Rightarrow> yaml" where
  "np_store t v =
     (case t of
        Int64 \<Rightarrow> YInt (cast_int64 v)
      | UInt64 \<Rightarrow> YInt (cast_uint64 v)
      | Bool8 \<Rightarrow> YBool (v \<noteq> YFloat 0)
      | _ \<Rightarrow> v)"

text \<open>Reading and writing the cell \<^verbatim>\<open>a[i][j]\<close> of a two-dimensional array.\<close>

definition get2 :: "ndarray \<Rightarrow> nat \<Rightarrow> nat \<Rightarrow> exn + yaml" where
  "get2 a i j =
     (case shape a of
        [r, c] \<Rightarrow> if i < r \<and> j < c then Inr (cells a ! (i * c + j)) else Inl IndexError
      | _ \<Rightarrow> Inl IndexError)"

definition set2 :: "ndarray \<Rightarrow> nat \<Rightarrow> nat \<Rightarrow> yaml \<Rightarrow> exn + ndarray" where
  "set2 a i j v =
     (case shape a of
        [r, c] \<Rightarrow>
          if i < r \<and> j < c then Inr (a\<lparr>cells := (cells a)[i * c + j := np_store (dtype a) v]\<rparr>)
          else Inl IndexError
      | _ \<Rightarrow> Inl IndexError)"

section \<open>The state of a run\<close>

text \<open>
  numpy arrays are mutable objects: the state holds them by address (the position in
  \<open>arrays\<close>), and a Python variable that refers to an array is such an address. A
  reference always points to a live object, so an address that the model is given is below
  the length of \<open>arrays\<close>. The state also records, in order, what the run prints and which file-system and image
  operations it performs. A \<open>Print\<close> event carries the fixed text of the message and the
  strings appended to it; appended numbers and documents are left out.
\<close>

datatype event =
    Print string
  | Mkdir string
  | Listdir string
  | ImRead string
  | ImWrite string

record pystate =
  arrays :: "ndarray list"
  events :: "event list"

type_synonym 'a py = "pystate \<Rightarrow> (exn + 'a) \<times> pystate"

definition ret :: "'a \<Rightarrow> 'a py" where
  "ret v = (\<lambda>s. (Inr v, s))"

definition lift :: "exn + 'a \<Rightarrow> 'a py" where
  "lift r = (\<lambda>s. (r, s))"

definition bind :: "'a py \<Rightarrow> ('a \<Rightarrow> 'b py) \<Rightarrow> 'b py" where
  "bind m f = (\<lambda>s. case m s of (Inl e, s') \<Rightarrow> (Inl e, s') | (Inr v, s') \<Rightarrow> f v s')"

definition emit :: "event \<Rightarrow> pystate \<Rightarrow> pystate" where
  "emit e s = s\<lparr>events := events s @ [e]\<rparr>"

text \<open>A new array object gets the next free address.\<close>

definition alloc :: "ndarray \<Rightarrow> nat py" where
  "alloc a = (\<lambda>s. (Inr (length (arrays s)), s\<lparr>arrays := arrays s @ [a]\<rparr>))"

text \<open>\<^verbatim>\<open>K.copy()\<close>: a new array object with the same element type, shape and cells.\<close>

definition ndarray_copy :: "nat \<Rightarrow> nat py" where
  "ndarray_copy a = (\<lambda>s. alloc (arrays s ! a) s)"

text \<open>
  \<^verbatim>\<open>A[i][j] = A[i][j]/float(d)\<close> on the array at address \<open>a\<close>: the only store of
  \<^verbatim>\<open>camera_matrix\<close>.
\<close>

definition divide_cell :: "nat \<Rightarrow> nat \<Rightarrow> nat \<Rightarrow> real \<Rightarrow> unit py" where
  "divide_cell a i j d =
     (\<lambda>s. let arr = arrays s ! a
          in case and_then (get2 arr i j) (\<lambda>x.
                  and_then (true_divide (dtype arr) x d) (\<lambda>q. set2 arr i j q)) of
               Inl e \<Rightarrow> (Inl e, s)
             | Inr arr' \<Rightarrow> (Inr (), s\<lparr>arrays := (arrays s)[a := arr']\<rparr>))"

section \<open>\<^verbatim>\<open>camera_matrix\<close>\<close>

text \<open>
  The subscript chain
  \<^verbatim>\<open>calibration_dict["ncameras"][0]["cameras"][int(camera_index)]["camera"]\<close>,
  in two parts: the list of cameras, and the record of one camera. \<open>camera_index\<close> is an
  integer, on which \<^verbatim>\<open>int\<close> is the identity.
\<close>

definition camera_list :: "yaml \<Rightarrow> exn + yaml" where
  "camera_list calibration_dict =
     and_then (getitem_str calibration_dict ''ncameras'') (\<lambda>n.
     and_then (getitem_int n 0) (\<lambda>n0.
     getitem_str n0 ''cameras''))"

definition camera_record :: "yaml \<Rightarrow> int \<Rightarrow> exn + yaml" where
  "camera_record calibration_dict camera_index =
     and_then (camera_list calibration_dict) (\<lambda>cs.
     and_then (getitem_int cs camera_index) (\<lambda>c.
     getitem_str c ''camera''))"

text \<open>\<^verbatim>\<open>camera_model["intrinsics"]["data"]\<close> and its element \<open>i\<close>.\<close>

definition intrinsics_array :: "yaml \<Rightarrow> exn + yaml" where
  "intrinsics_array camera_model =
     and_then (getitem_str camera_model ''intrinsics'') (\<lambda>a. getitem_str a ''data'')"

definition intrinsics_data :: "yaml \<Rightarrow> int \<Rightarrow> exn + yaml" where
  "intrinsics_data camera_model i =
     and_then (intrinsics_array camera_model) (\<lambda>d. getitem_int d i)"

text \<open>\<^verbatim>\<open>camera_model["distortion"]["parameters"]["data"]\<close>\<close>

definition distortion_array :: "yaml \<Rightarrow> exn + yaml" where
  "distortion_array camera_model =
     and_then (getitem_str camera_model ''distortion'') (\<lambda>a.
     and_then (getitem_str a ''parameters'') (\<lambda>p. getitem_str p ''data''))"

text \<open>
  The body of the \<^verbatim>\<open>try\<close> block, statement by statement. The result lists the
  addresses of \<open>K\<close>, \<open>D\<close>, \<open>xi\<close> and \<open>K_scaled\<close>.
\<close>

definition camera_matrix_try :: "yaml \<Rightarrow> int \<Rightarrow> real \<Rightarrow> (nat list) py" where
  "camera_matrix_try calibration_dict camera_index output_scale =
     bind (lift (camera_record calibration_dict camera_index)) (\<lambda>camera_model.
     bind (lift (intrinsics_data camera_model 1)) (\<lambda>fx.
     bind (lift (intrinsics_data camera_model 3)) (\<lambda>cx.
     bind (lift (intrinsics_data camera_model 2)) (\<lambda>fy.
     bind (lift (intrinsics_data camera_model 4)) (\<lambda>cy.
     bind (lift (np_array (YList [YList [fx, YInt 0, cx],
                                  YList [YInt 0, fy, cy],
                                  YList [YInt 0, YInt 0, YInt 1]]))) (\<lambda>k.
     bind (alloc k) (\<lambda>K.
     bind (ndarray_copy K) (\<lambda>K_scaled.
     bind (divide_cell K_scaled 0 0 output_scale) (\<lambda>_.
     bind (divide_cell K_scaled 1 1 output_scale) (\<lambda>_.
     bind (lift (distortion_array camera_model)) (\<lambda>dd.
     bind (lift (and_then (np_array dd) newaxis1)) (\<lambda>d.
     bind (alloc d) (\<lambda>D.
     bind (lift (intrinsics_data camera_model 0)) (\<lambda>x.
     bind (lift (np_array x)) (\<lambda>xa.
     bind (alloc xa) (\<lambda>xi.
     ret [K, D, xi, K_scaled]))))))))))))))))"

text \<open>
  The bare \<^verbatim>\<open>except\<close> turns every exception into the empty list. The arrays that the
  \<^verbatim>\<open>try\<close> block created before the exception stay in the state, where nothing refers
  to them. \<open>output_scale\<close> is a number, and \<^verbatim>\<open>float(output_scale)\<close> the real it denotes.
\<close>

definition camera_matrix :: "yaml \<Rightarrow> int \<Rightarrow> real \<Rightarrow> pystate \<Rightarrow> nat list \<times> pystate" where
  "camera_matrix calibration_dict camera_index output_scale s =
     (case camera_matrix_try calibration_dict camera_index output_scale s of
        (Inl e, s') \<Rightarrow> ([], emit (Print ''[Error] Can not extract camera model properly!'') s')
      | (Inr r, s') \<Rightarrow> (r, s'))"

section \<open>\<^verbatim>\<open>undistort\<close>\<close>

text \<open>
  An image is a raster of \<open>height\<close> rows and \<open>width\<close> columns (\<^verbatim>\<open>image.shape[0]\<close> and
  \<^verbatim>\<open>image.shape[1]\<close>); the pair of tables that \<^verbatim>\<open>initUndistortRectifyMap\<close> returns has rows
  and columns as well. Their contents are opaque here. The source's variable \<^verbatim>\<open>image\<close> is
  \<open>img\<close> below.
\<close>

record image =
  height :: nat
  width :: nat
  pixels :: "nat list"

record rmaps =
  map_rows :: nat
  map_cols :: nat
  table :: "nat list"

text \<open>
  OpenCV is outside the repository: the four routines the source calls are parameters of
  the model. The constant arguments of the calls (\<^verbatim>\<open>cv2.CV_16SC2\<close>,
  \<^verbatim>\<open>RECTIFY_PERSPECTIVE\<close>, \<^verbatim>\<open>INTER_LINEAR\<close>, \<^verbatim>\<open>BORDER_CONSTANT\<close>) are part of the
  routines. \<open>imread\<close> returns \<^verbatim>\<open>None\<close> for a file it cannot decode; the others may raise.
\<close>

record cv2 =
  imread :: "string \<Rightarrow> image option"
  initUndistortRectifyMap ::
    "ndarray \<Rightarrow> ndarray \<Rightarrow> ndarray \<Rightarrow> ndarray \<Rightarrow> ndarray \<Rightarrow> nat \<times> nat \<Rightarrow> exn + rmaps"
  remap :: "image \<Rightarrow> rmaps \<Rightarrow> exn + image"
  imwrite :: "string \<Rightarrow> image \<Rightarrow> exn + bool"

text \<open>\<^verbatim>\<open>np.eye(3)\<close>\<close>

definition eye3 :: ndarray where
  "eye3 = \<lparr>dtype = Float64, shape = [3, 3],
           cells = [YFloat 1, YFloat 0, YFloat 0,
                    YFloat 0, YFloat 1, YFloat 0,
                    YFloat 0, YFloat 0, YFloat 1]\<rparr>"

text \<open>\<^verbatim>\<open>os.path.basename\<close>: what follows the last slash.\<close>

definition basename :: "string \<Rightarrow> string" where
  "basename p = rev (takeWhile (\<lambda>c. c \<noteq> CHR ''/'') (rev p))"

definition undistort :: "cv2 \<Rightarrow> string \<Rightarrow> nat list \<Rightarrow> bool \<Rightarrow> (image option) py" where
  "undistort cv image_path camera_model verbose s =
     (if length camera_model \<noteq> 4 then
        (Inr None, emit (Print ''[Error] Wrong calibration parameters (total size)!'') s)
      else
        let K = arrays s ! (camera_model ! 0);
            D = arrays s ! (camera_model ! 1);
            xi = arrays s ! (camera_model ! 2);
            K_scaled = arrays s ! (camera_model ! 3)
        in if shape K \<noteq> [3, 3] \<or> shape D \<noteq> [4, 1] \<or> shape xi \<noteq> [] \<or> shape K_scaled \<noteq> [3, 3] then
             (Inr None, emit (Print ''[Error] Wrong calibration parameters (shapes)!'') s)
           else
             let s1 = emit (ImRead image_path) s
             in case imread cv image_path of
                  None \<Rightarrow> (Inr None, emit (Print ''[Error] Can not load image from path!'') s1)
                | Some img \<Rightarrow>
                    (case initUndistortRectifyMap cv K D xi eye3 K_scaled
                            (width img, height img) of
                       Inl e \<Rightarrow> (Inl e, s1)
                     | Inr maps \<Rightarrow>
                         (case remap cv img maps of
                            Inl e \<Rightarrow> (Inl e, s1)
                          | Inr undistorted_image \<Rightarrow>
                              (Inr (Some undistorted_image),
                               if verbose
                               then emit (Print (CHR 0x09 # '' Finish processing image '' @ basename image_path)) s1
                               else s1))))"

section \<open>\<^verbatim>\<open>main\<close>\<close>














section \<open>Notions of the statements\<close>

text \<open>The state of a process that holds no array and has printed nothing yet.\<close>

definition init_state :: pystate where
  "init_state = \<lparr>arrays = [], events = []\<rparr>"



text \<open>
  The arrays that \<^verbatim>\<open>camera_matrix\<close> builds from numbers: \<open>K\<close> from its nine entries in
  row-major order, \<open>K_scaled\<close> from \<open>K\<close> by the two stores of the quotients \<open>p\<close> and \<open>q\<close>,
  \<open>D\<close> and \<open>xi\<close>.
\<close>

definition K_entries :: "yaml \<Rightarrow> yaml \<Rightarrow> yaml \<Rightarrow> yaml \<Rightarrow> yaml list" where
  "K_entries fx fy cx cy = [fx, YInt 0, cx, YInt 0, fy, cy, YInt 0, YInt 0, YInt 1]"

definition K_array :: "yaml \<Rightarrow> yaml \<Rightarrow> yaml \<Rightarrow> yaml \<Rightarrow> ndarray" where
  "K_array fx fy cx cy =
     \<lparr>dtype = np_result_type (K_entries fx fy cx cy), shape = [3, 3],
      cells = map (np_cast (np_result_type (K_entries fx fy cx cy))) (K_entries fx fy cx cy)\<rparr>"

definition K_scaled_array :: "yaml \<Rightarrow> yaml \<Rightarrow> yaml \<Rightarrow> yaml \<Rightarrow> real \<Rightarrow> real \<Rightarrow> ndarray" where
  "K_scaled_array fx fy cx cy p q =
     (K_array fx fy cx cy)\<lparr>cells :=
        (cells (K_array fx fy cx cy))
          [0 := np_store (dtype (K_array fx fy cx cy)) (YFloat p),
           4 := np_store (dtype (K_array fx fy cx cy)) (YFloat q)]\<rparr>"

definition D_array :: "yaml list \<Rightarrow> ndarray" where
  "D_array ds = \<lparr>dtype = np_result_type ds, shape = [length ds, 1],
                 cells = map (np_cast (np_result_type ds)) ds\<rparr>"

definition xi_array :: "yaml \<Rightarrow> ndarray" where
  "xi_array x = \<lparr>dtype = np_result_type [x], shape = [], cells = [np_cast (np_result_type [x]) x]\<rparr>"






text \<open>
  Image events, the events a run has added to those of its start state, and the events
  that read an image of the folder \<open>d\<close> or write its rectified image below
  \<open>outputs_directory\<close>.
\<close>

fun image_event :: "event \<Rightarrow> bool" where
  "image_event (ImRead p) = True"
| "image_event (ImWrite p) = True"
| "image_event _ = False"

definition new_events :: "pystate \<Rightarrow> pystate \<Rightarrow> event list" where
  "new_events s s' = drop (length (events s)) (events s')"

fun in_folder :: "string \<Rightarrow> string \<Rightarrow> event \<Rightarrow> bool" where
  "in_folder outputs_directory d (ImRead p) = (take (length (d @ ''/'')) p = d @ ''/'')"
| "in_folder outputs_directory d (ImWrite p) =
     (take (length (outputs_directory @ ''/'' @ basename d @ ''/'')) p
        = outputs_directory @ ''/'' @ basename d @ ''/'')"
| "in_folder outputs_directory d _ = False"

text \<open>
  A list of events without image events, and a list of events whose image events all
  belong to one of the folders \<open>ds\<close>.
\<close>

definition quiet :: "event list \<Rightarrow> bool" where
  "quiet ps = list_all (\<lambda>e. \<not> image_event e) ps"

definition confined :: "string \<Rightarrow> string list \<Rightarrow> event list \<Rightarrow> bool" where
  "confined outputs_directory ds ps =
     list_all (\<lambda>e. image_event e \<longrightarrow> list_ex (\<lambda>d. in_folder outputs_directory d e) ds) ps"

section \<open>Sample inputs\<close>

text \<open>
  Calibration documents of the shape the configuration file has: a camera entry with the
  given intrinsics and distortion data arrays, and a document with the given camera
  entries.
\<close>

definition camera_body :: "yaml list \<Rightarrow> yaml list \<Rightarrow> yaml" where
  "camera_body intrinsics distortion =
     YDict [(''intrinsics'', YDict [(''data'', YList intrinsics)]),
            (''distortion'', YDict [(''parameters'', YDict [(''data'', YList distortion)])])]"

definition camera_entry :: "yaml list \<Rightarrow> yaml list \<Rightarrow> yaml" where
  "camera_entry intrinsics distortion = YDict [(''camera'', camera_body intrinsics distortion)]"

definition calibration_of :: "yaml list \<Rightarrow> yaml" where
  "calibration_of cams = YDict [(''ncameras'', YList [YDict [(''cameras'', YList cams)]])]"


definition int_camera :: yaml where
  "int_camera =
     camera_entry [YFloat 1.5, YInt 801, YInt 801, YInt 320, YInt 240]
                  [YFloat 0.1, YFloat 0, YFloat 0, YFloat 0]"


text \<open>
  An OpenCV that decodes every file as a raster of 2 rows and 3 columns, and a file
  system with the four input folders, one image in \<^verbatim>\<open>front\<close>.
\<close>

definition demo_cv :: cv2 where
  "demo_cv =
     \<lparr>imread = (\<lambda>p. Some \<lparr>height = 2, width = 3, pixels = []\<rparr>),
      initUndistortRectifyMap =
        (\<lambda>K D xi R P (w, h). Inr \<lparr>map_rows = h, map_cols = w, table = []\<rparr>),
      remap = (\<lambda>img m. Inr \<lparr>height = map_rows m, width = map_cols m, pixels = []\<rparr>),
      imwrite = (\<lambda>p img. Inr True)\<rparr>"



text \<open>
  Two states with three arrays each, for the record \<open>[0, 1, 2, 0]\<close>: in the first the array
  at address 1 is a 3 by 1 column, in the second a 4 by 1 column.
\<close>

definition three_by_one_state :: pystate where
  "three_by_one_state =
     \<lparr>arrays = [eye3, \<lparr>dtype = Float64, shape = [3, 1], cells = [YFloat 0, YFloat 0, YFloat 0]\<rparr>,
                \<lparr>dtype = Float64, shape = [], cells = [YFloat 1]\<rparr>],
      events = []\<rparr>"


section \<open>Facts about numpy and the state\<close>

lemma num_scalar: "num_of v = Some r \<Longrightarrow> np_shape v = Some [] \<and> np_flat v = [v]"
  by (cases v) simp_all

lemma num_of_np_cast [simp]: "num_of (np_cast t v) = num_of v"
  by (cases t; cases v) simp_all

lemma num_not_str: "num_of v = Some r \<Longrightarrow> \<not> is_str v"
  by (cases v) simp_all

lemma np_array_K:
  assumes "num_of fx = Some a" "num_of fy = Some b" "num_of cx = Some c" "num_of cy = Some d"
  shows "np_array (YList [YList [fx, YInt 0, cx], YList [YInt 0, fy, cy], YList [YInt 0, YInt 0, YInt 1]])
       = Inr \<lparr>dtype = np_result_type (K_entries fx fy cx cy), shape = [3, 3],
              cells = map (np_cast (np_result_type (K_entries fx fy cx cy))) (K_entries fx fy cx cy)\<rparr>"
  using assms by (simp add: np_array_def num_scalar K_entries_def Let_def)

lemma K_dtype:
  assumes "num_of fx = Some a" "num_of fy = Some b" "num_of cx = Some c" "num_of cy = Some d"
  shows "np_result_type (K_entries fx fy cx cy) \<in> {Int64, Float64, Object}"
  using assms by (auto simp: np_result_type_def K_entries_def in_int64_def dest: num_not_str)

lemma true_divide_num:
  assumes "num_of v = Some r" "d \<noteq> 0" "t \<noteq> Unicode"
  shows "true_divide t (np_cast t v) d = Inr (YFloat (r / d))"
  using assms by (cases v) (auto simp: true_divide_def)

lemma np_flat_scalars: "\<forall>v \<in> set ds. num_of v \<noteq> None \<Longrightarrow> concat (map np_flat ds) = ds"
  by (induction ds) (auto simp: num_scalar)

lemma np_shape_scalars:
  assumes "\<forall>v \<in> set ds. num_of v \<noteq> None"
  shows "np_shape (YList ds) = Some [length ds]"
proof -
  have "list_all (\<lambda>y. np_shape y = Some []) ds"
    using assms num_scalar by (fastforce simp: list_all_iff)
  then show ?thesis by (cases ds) simp_all
qed

lemma np_array_scalars:
  assumes "\<forall>v \<in> set ds. num_of v \<noteq> None"
  shows "np_array (YList ds)
       = Inr \<lparr>dtype = np_result_type ds, shape = [length ds],
              cells = map (np_cast (np_result_type ds)) ds\<rparr>"
  using np_shape_scalars[OF assms] np_flat_scalars[OF assms]
  by (simp add: np_array_def Let_def del: np_shape.simps)

lemma np_array_scalar:
  assumes "num_of x = Some r"
  shows "np_array x = Inr \<lparr>dtype = np_result_type [x], shape = [], cells = [np_cast (np_result_type [x]) x]\<rparr>"
  using num_scalar[OF assms] by (simp add: np_array_def Let_def)

lemma intrinsics_data_nth:
  assumes "intrinsics_array cam = Inr (YList [x, fx, fy, cx, cy])"
  shows "intrinsics_data cam 0 = Inr x" "intrinsics_data cam 1 = Inr fx" "intrinsics_data cam 2 = Inr fy"
    "intrinsics_data cam 3 = Inr cx" "intrinsics_data cam 4 = Inr cy"
  using assms by (simp_all add: intrinsics_data_def and_then_def getitem_int_def py_index_def)

lemma divide_cell_ok:
  assumes "get2 (arrays s ! n) i j = Inr x"
    and "true_divide (dtype (arrays s ! n)) x d = Inr q"
    and "set2 (arrays s ! n) i j q = Inr arr'"
  shows "divide_cell n i j d s = (Inr (), s\<lparr>arrays := (arrays s)[n := arr']\<rparr>)"
  using assms by (simp add: divide_cell_def and_then_def Let_def)

lemma K_array_not_Unicode:
  assumes "num_of fx = Some a" "num_of fy = Some b" "num_of cx = Some c" "num_of cy = Some d"
  shows "dtype (K_array fx fy cx cy) \<noteq> Unicode"
  using K_dtype[OF assms] by (auto simp: K_array_def)

lemma divide_cell_K00:
  assumes "num_of fx = Some a" "num_of fy = Some b" "num_of cx = Some c" "num_of cy = Some d"
    and "scale \<noteq> 0" and "arrays s ! n = K_array fx fy cx cy"
  shows "divide_cell n 0 0 scale s
       = (Inr (), s\<lparr>arrays := (arrays s)[n := (K_array fx fy cx cy)\<lparr>cells :=
            (cells (K_array fx fy cx cy))[0 := np_store (dtype (K_array fx fy cx cy)) (YFloat (a / scale))]\<rparr>]\<rparr>)"
proof (rule divide_cell_ok)
  show "get2 (arrays s ! n) 0 0 = Inr (np_cast (dtype (K_array fx fy cx cy)) fx)"
    by (simp add: assms(6) get2_def K_array_def K_entries_def)
  show "true_divide (dtype (arrays s ! n)) (np_cast (dtype (K_array fx fy cx cy)) fx) scale
      = Inr (YFloat (a / scale))"
    using true_divide_num[OF assms(1) assms(5) K_array_not_Unicode[OF assms(1-4)]]
    by (simp add: assms(6))
  show "set2 (arrays s ! n) 0 0 (YFloat (a / scale)) = Inr ((K_array fx fy cx cy)\<lparr>cells :=
            (cells (K_array fx fy cx cy))[0 := np_store (dtype (K_array fx fy cx cy)) (YFloat (a / scale))]\<rparr>)"
    by (simp add: assms(6) set2_def K_array_def)
qed

lemma divide_cell_K11:
  assumes "num_of fx = Some a" "num_of fy = Some b" "num_of cx = Some c" "num_of cy = Some d"
    and "scale \<noteq> 0"
    and "arrays s ! n = (K_array fx fy cx cy)\<lparr>cells :=
            (cells (K_array fx fy cx cy))[0 := v]\<rparr>"
  shows "divide_cell n 1 1 scale s
       = (Inr (), s\<lparr>arrays := (arrays s)[n := (K_array fx fy cx cy)\<lparr>cells :=
            (cells (K_array fx fy cx cy))[0 := v, 4 := np_store (dtype (K_array fx fy cx cy)) (YFloat (b / scale))]\<rparr>]\<rparr>)"
proof (rule divide_cell_ok)
  show "get2 (arrays s ! n) 1 1 = Inr (np_cast (dtype (K_array fx fy cx cy)) fy)"
    by (simp add: assms(6) get2_def K_array_def K_entries_def)
  show "true_divide (dtype (arrays s ! n)) (np_cast (dtype (K_array fx fy cx cy)) fy) scale
      = Inr (YFloat (b / scale))"
    using true_divide_num[OF assms(2) assms(5) K_array_not_Unicode[OF assms(1-4)]]
    by (simp add: assms(6))
  show "set2 (arrays s ! n) 1 1 (YFloat (b / scale)) = Inr ((K_array fx fy cx cy)\<lparr>cells :=
            (cells (K_array fx fy cx cy))[0 := v, 4 := np_store (dtype (K_array fx fy cx cy)) (YFloat (b / scale))]\<rparr>)"
    by (simp add: assms(6) set2_def K_array_def)
qed

lemma camera_matrix_numeric:
  assumes cam: "camera_record doc i = Inr cam"
    and intr: "intrinsics_array cam = Inr (YList [x, fx, fy, cx, cy])"
    and dist: "distortion_array cam = Inr (YList ds)"
    and nums: "num_of x = Some rx" "num_of fx = Some a" "num_of fy = Some b"
      "num_of cx = Some c" "num_of cy = Some d"
    and dnums: "\<forall>v \<in> set ds. num_of v \<noteq> None"
    and scale: "scale \<noteq> 0"
  shows "camera_matrix doc i scale s =
     ([length (arrays s), length (arrays s) + 2, length (arrays s) + 3, length (arrays s) + 1],
      s\<lparr>arrays := arrays s @ [K_array fx fy cx cy, K_scaled_array fx fy cx cy (a / scale) (b / scale),
                               D_array ds, xi_array x]\<rparr>)"
proof -
  let ?n = "length (arrays s)"
  let ?k = "K_array fx fy cx cy"
  let ?s1 = "s\<lparr>arrays := arrays s @ [?k]\<rparr>"
  let ?s2 = "s\<lparr>arrays := arrays s @ [?k, ?k]\<rparr>"
  have c: "ndarray_copy ?n ?s1 = (Inr (Suc ?n), ?s2)"
    by (simp add: ndarray_copy_def alloc_def)
  have d0: "divide_cell (Suc ?n) 0 0 scale ?s2 = (Inr (), s\<lparr>arrays := arrays s @ [?k, ?k\<lparr>cells :=
            (cells ?k)[0 := np_store (dtype ?k) (YFloat (a / scale))]\<rparr>]\<rparr>)"
    using divide_cell_K00[OF nums(2-5) scale, of ?s2 "Suc ?n"]
    by (simp add: nth_append list_update_append)
  let ?s3 = "s\<lparr>arrays := arrays s @ [?k, ?k\<lparr>cells :=
            (cells ?k)[0 := np_store (dtype ?k) (YFloat (a / scale))]\<rparr>]\<rparr>"
  have d1: "divide_cell (Suc ?n) 1 1 scale ?s3 = (Inr (), s\<lparr>arrays := arrays s @ [?k,
       K_scaled_array fx fy cx cy (a / scale) (b / scale)]\<rparr>)"
    using divide_cell_K11[OF nums(2-5) scale, of ?s3 "Suc ?n" "np_store (dtype ?k) (YFloat (a / scale))"]
    by (simp add: nth_append list_update_append K_scaled_array_def)
  have da: "and_then (np_array (YList ds)) newaxis1 = Inr (D_array ds)"
    by (simp add: np_array_scalars[OF dnums] and_then_def newaxis1_def D_array_def)
  have xa: "np_array x = Inr (xi_array x)"
    by (simp add: np_array_scalar[OF nums(1)] xi_array_def)
  have k: "np_array (YList [YList [fx, YInt 0, cx], YList [YInt 0, fy, cy], YList [YInt 0, YInt 0, YInt 1]]) = Inr ?k"
    by (simp add: np_array_K[OF nums(2-5)] K_array_def)
  have "camera_matrix_try doc i scale s =
     (Inr [?n, ?n + 2, ?n + 3, ?n + 1],
      s\<lparr>arrays := arrays s @ [?k, K_scaled_array fx fy cx cy (a / scale) (b / scale),
                               D_array ds, xi_array x]\<rparr>)"
    unfolding camera_matrix_try_def
    by (simp add: bind_def lift_def ret_def cam intrinsics_data_nth[OF intr] k dist da xa alloc_def
          c[unfolded alloc_def] d0 d1 del: One_nat_def)
  then show ?thesis by (simp add: camera_matrix_def)
qed









section \<open>\<^verbatim>\<open>camera_matrix\<close>: the claims\<close>




lemmas nav_defs = camera_record_def camera_list_def intrinsics_array_def distortion_array_def
  and_then_def getitem_str_def getitem_int_def py_index_def




lemma trunc_of_int [simp]: "trunc (of_int n) = n"
  by (simp add: trunc_def)









lemma K_dtype_float:
  assumes "is_float fx \<or> is_float fy \<or> is_float cx \<or> is_float cy"
  shows "np_result_type (K_entries fx fy cx cy) \<noteq> Int64"
  using assms by (auto simp: np_result_type_def K_entries_def)

text \<open>
  When one of \<open>fx, fy, cx, cy\<close> is a float, \<open>K\<close> and \<open>K_scaled\<close> are arrays of floats (or
  of objects), the two stores keep the quotients, and the other entries of \<open>K_scaled\<close>
  are those of \<open>K\<close>.
\<close>

lemma camera_matrix_scales_float_focal:
  assumes "camera_record doc i = Inr cam"
    and "intrinsics_array cam = Inr (YList [x, fx, fy, cx, cy])"
    and "distortion_array cam = Inr (YList [d0, d1, d2, d3])"
    and "num_of x = Some rx" "num_of fx = Some a" "num_of fy = Some b"
      "num_of cx = Some c" "num_of cy = Some d"
    and "map num_of [d0, d1, d2, d3] = map Some [r0, r1, r2, r3]"
    and "0 < scale"
    and "is_float fx \<or> is_float fy \<or> is_float cx \<or> is_float cy"
  shows "\<exists>K D xi Ks s'. camera_matrix doc i scale s = ([K, D, xi, Ks], s')
     \<and> map num_of (cells (arrays s' ! K)) = map Some [a, 0, c, 0, b, d, 0, 0, 1]
     \<and> map num_of (cells (arrays s' ! Ks)) = map Some [a / scale, 0, c, 0, b / scale, d, 0, 0, 1]"
proof -
  have dn: "\<forall>v \<in> set [d0, d1, d2, d3]. num_of v \<noteq> None"
    using assms(9) by auto
  have sc: "scale \<noteq> 0" using assms(10) by simp
  note run = camera_matrix_numeric[OF assms(1-3) assms(4-8) dn sc, of s]
  from K_dtype[OF assms(5-8)] K_dtype_float[OF assms(11)]
  have st: "\<And>v. np_store (np_result_type (K_entries fx fy cx cy)) v = v"
    by (auto simp: np_store_def)
  show ?thesis
    unfolding run using assms(5-8)
    by (simp add: nth_append K_scaled_array_def K_array_def st) (simp add: K_entries_def)
qed

text \<open>
  Claim C1, at a record whose \<open>fx, fy, cx, cy\<close> are the integers 801, 801, 320, 240 and
  with \<open>output_scale = 5\<close>: \<^verbatim>\<open>np.array\<close> builds \<open>K\<close> as an integer array, \<open>K_scaled\<close>
  is a copy of it, and the store of the quotient 801 / 5 = 160.2 into it keeps 160. The
  focal entries of \<open>K_scaled\<close> are not those of \<open>K\<close> divided by the scale.
\<close>

theorem camera_matrix_integer_focal_truncated:
  "camera_matrix (calibration_of [int_camera]) 0 5 init_state =
     ([0, 2, 3, 1],
      \<lparr>arrays =
         [\<lparr>dtype = Int64, shape = [3, 3],
           cells = [YInt 801, YInt 0, YInt 320, YInt 0, YInt 801, YInt 240, YInt 0, YInt 0, YInt 1]\<rparr>,
          \<lparr>dtype = Int64, shape = [3, 3],
           cells = [YInt 160, YInt 0, YInt 320, YInt 0, YInt 160, YInt 240, YInt 0, YInt 0, YInt 1]\<rparr>,
          \<lparr>dtype = Float64, shape = [4, 1], cells = [YFloat 0.1, YFloat 0, YFloat 0, YFloat 0]\<rparr>,
          \<lparr>dtype = Float64, shape = [], cells = [YFloat 1.5]\<rparr>],
       events = []\<rparr>)
   \<and> num_of (YInt 160) \<noteq> Some (801 / 5)"
  by code_simp

lemma camera_matrix_no_record:
  assumes "camera_record doc i = Inl e"
  shows "camera_matrix doc i scale s
       = ([], emit (Print ''[Error] Can not extract camera model properly!'') s)"
  using assms by (simp add: camera_matrix_def camera_matrix_try_def bind_def lift_def)











section \<open>\<^verbatim>\<open>undistort\<close>: the claims\<close>

text \<open>
  Claim C10. For a \<open>camera_model\<close> list that does not have exactly 4 elements, such as the
  empty list of a failed \<^verbatim>\<open>camera_matrix\<close> call, \<^verbatim>\<open>undistort\<close> returns \<^verbatim>\<open>None\<close>; all it
  does is print its message: it does not read the image and calls no OpenCV routine.
\<close>

theorem undistort_rejects_wrong_length:
  assumes "length camera_model \<noteq> 4"
  shows "undistort cv image_path camera_model verbose s
       = (Inr None, emit (Print ''[Error] Wrong calibration parameters (total size)!'') s)
     \<and> new_events s (snd (undistort cv image_path camera_model verbose s))
       = [Print ''[Error] Wrong calibration parameters (total size)!'']"
  using assms by (simp add: undistort_def new_events_def emit_def)

lemma failed_extraction:
  "camera_matrix (calibration_of []) 0 5 init_state
     = ([], emit (Print ''[Error] Can not extract camera model properly!'') init_state)"
  by (rule camera_matrix_no_record[where e = IndexError])
     (simp add: calibration_of_def nav_defs)

text \<open>The theorem at the result and the state of a failed extraction.\<close>

theorem undistort_rejects_wrong_length_witness:
  "undistort demo_cv ''/in/front/a.png'' (fst (camera_matrix (calibration_of []) 0 5 init_state)) False
       (snd (camera_matrix (calibration_of []) 0 5 init_state))
     = (Inr None, emit (Print ''[Error] Wrong calibration parameters (total size)!'')
          (snd (camera_matrix (calibration_of []) 0 5 init_state)))
   \<and> new_events (snd (camera_matrix (calibration_of []) 0 5 init_state))
        (snd (undistort demo_cv ''/in/front/a.png'' (fst (camera_matrix (calibration_of []) 0 5 init_state))
                False (snd (camera_matrix (calibration_of []) 0 5 init_state))))
     = [Print ''[Error] Wrong calibration parameters (total size)!'']"
  by (rule undistort_rejects_wrong_length) (simp add: failed_extraction)

text \<open>
  Claim C4. For a record of four arrays in which \<open>K\<close> is not 3 by 3, or \<open>D\<close> is not 4
  by 1, or \<open>K_scaled\<close> is not 3 by 3, \<^verbatim>\<open>undistort\<close> returns \<^verbatim>\<open>None\<close>; all it does is print its
  message, so no image is read and none is produced.
\<close>

theorem undistort_rejects_shapes:
  assumes "shape (arrays s ! K) \<noteq> [3, 3] \<or> shape (arrays s ! D) \<noteq> [4, 1]
         \<or> shape (arrays s ! K_scaled) \<noteq> [3, 3]"
  shows "undistort cv image_path [K, D, xi, K_scaled] verbose s
       = (Inr None, emit (Print ''[Error] Wrong calibration parameters (shapes)!'') s)
     \<and> new_events s (snd (undistort cv image_path [K, D, xi, K_scaled] verbose s))
       = [Print ''[Error] Wrong calibration parameters (shapes)!'']"
  using assms by (auto simp: undistort_def new_events_def emit_def Let_def)

text \<open>The theorem at a record whose \<open>D\<close> is a 3 by 1 column.\<close>

theorem undistort_rejects_shapes_witness:
  "undistort demo_cv ''/in/front/a.png'' [0, 1, 2, 0] False three_by_one_state
       = (Inr None, emit (Print ''[Error] Wrong calibration parameters (shapes)!'') three_by_one_state)
     \<and> new_events three_by_one_state
          (snd (undistort demo_cv ''/in/front/a.png'' [0, 1, 2, 0] False three_by_one_state))
       = [Print ''[Error] Wrong calibration parameters (shapes)!'']"
  by (rule undistort_rejects_shapes) (simp add: three_by_one_state_def)




section \<open>\<^verbatim>\<open>main\<close>: the claims\<close>

lemma quiet_simps [simp]: "quiet []" "quiet (Print m # ps) = quiet ps" "quiet (Mkdir p # ps) = quiet ps"
  "quiet (Listdir p # ps) = quiet ps" "quiet (ps @ qs) = (quiet ps \<and> quiet qs)"
  by (simp_all add: quiet_def)

lemma confined_simps [simp]: "confined out ds []" "confined out ds (Print m # ps) = confined out ds ps"
  "confined out ds (Listdir p # ps) = confined out ds ps"
  "confined out ds (ps @ qs) = (confined out ds ps \<and> confined out ds qs)"
  by (simp_all add: confined_def)




lemma in_folder_read [simp]: "in_folder out d (ImRead (d @ ''/'' @ f))"
  by simp

lemma in_folder_write [simp]: "in_folder out d (ImWrite (out @ ''/'' @ basename d @ ''/'' @ f))"
  by simp














end
